theory Spec2Isabelle
  imports Complex_Main "HOL-Library.AList" "HOL-Library.List_Lexorder"
    "HOL-Library.Product_Lexorder" "HOL-Library.Option_ord"
begin

section \<open>Text: Python strings as lists of code points\<close>

text \<open>
  A Python \<open>str\<close> is a sequence of Unicode code points, so a string is a list of
  naturals; the order of \<open>nat list\<close> (lexicographic, a proper prefix first) is Python's
  order on \<open>str\<close>. \<open>ustr\<close> turns an ASCII literal into its code points.

  The three character tables used by \<open>excel_diff.py\<close> (\<open>\s\<close> and \<open>\w\<close> of module
  \<open>re\<close> on \<open>str\<close> patterns, \<open>str.strip\<close>, \<open>str.lower\<close>) are tabulated exactly for the code
  points below 256 and for U+0130 (304, LATIN CAPITAL LETTER I WITH DOT ABOVE) and U+0307
  (775, COMBINING DOT ABOVE). Other code points are not tabulated: they are treated as
  caseless punctuation, and every statement that depends on the tables is made for
  tabulated code points only.
\<close>

type_synonym ustring = "nat list"

definition ustr :: "string \<Rightarrow> ustring" where
  "ustr s = map of_char s"

definition is_space :: "nat \<Rightarrow> bool" where
  "is_space c = ((9 \<le> c \<and> c \<le> 13) \<or> (28 \<le> c \<and> c \<le> 32) \<or> c = 133 \<or> c = 160)"

definition is_word :: "nat \<Rightarrow> bool" where
  "is_word c =
     ((48 \<le> c \<and> c \<le> 57) \<or> (65 \<le> c \<and> c \<le> 90) \<or> c = 95 \<or> (97 \<le> c \<and> c \<le> 122)
      \<or> c = 170 \<or> c = 178 \<or> c = 179 \<or> c = 181 \<or> c = 185 \<or> c = 186
      \<or> (188 \<le> c \<and> c \<le> 190) \<or> (192 \<le> c \<and> c \<le> 214) \<or> (216 \<le> c \<and> c \<le> 246)
      \<or> (248 \<le> c \<and> c \<le> 255) \<or> c = 304)"

definition lower_cp :: "nat \<Rightarrow> ustring" where
  "lower_cp c =
     (if (65 \<le> c \<and> c \<le> 90) \<or> (192 \<le> c \<and> c \<le> 222 \<and> c \<noteq> 215) then [c + 32]
      else if c = 304 then [105, 775]
      else [c])"

definition py_lower :: "ustring \<Rightarrow> ustring" where
  "py_lower s = concat (map lower_cp s)"

definition py_strip :: "ustring \<Rightarrow> ustring" where
  "py_strip s = rev (dropWhile is_space (rev (dropWhile is_space s)))"

text \<open>\<open>re.sub(r"[^\w\s]", " ", s)\<close>: every character that is neither a word character
  nor whitespace becomes one space.\<close>

definition sub_nonword :: "ustring \<Rightarrow> ustring" where
  "sub_nonword s = map (\<lambda>c. if is_word c \<or> is_space c then c else 32) s"

text \<open>\<open>re.sub(r"\s+", " ", s)\<close>: every maximal run of whitespace becomes one space.\<close>

function collapse_ws :: "ustring \<Rightarrow> ustring" where
  "collapse_ws [] = []"
| "collapse_ws (c # cs) =
     (if is_space c then 32 # collapse_ws (dropWhile is_space cs) else c # collapse_ws cs)"
  by pat_completeness auto
termination
  by (relation "measure length") (auto simp: le_imp_less_Suc length_dropWhile_le)

text \<open>\<open>_normalize_header\<close>; the argument is \<open>None\<close> or a \<open>str\<close>.\<close>

definition normalize_header :: "ustring option \<Rightarrow> ustring" where
  "normalize_header s =
     (case s of
        None \<Rightarrow> []
      | Some t \<Rightarrow> py_lower (py_strip (collapse_ws (sub_nonword t))))"

section \<open>Cells and sheets\<close>

text \<open>
  A cell value as openpyxl hands it over: \<open>None\<close>, a \<open>str\<close>, an \<open>int\<close>, or another
  non-string value (float, bool, date), which the code only ever tests with
  \<open>isinstance(v, str)\<close>, compares with \<open>None\<close> and \<open>""\<close>, and converts with \<open>str\<close>; such a
  value is carried by its \<open>str()\<close> text.
\<close>

datatype cell = CNone | CStr ustring | CInt int | COther ustring

function dec_nat :: "nat \<Rightarrow> ustring" where
  "dec_nat n = (if n < 10 then [48 + n] else dec_nat (n div 10) @ [48 + n mod 10])"
  by pat_completeness auto
termination
  by (relation "measure id") auto

declare dec_nat.simps [simp del]

definition dec_int :: "int \<Rightarrow> ustring" where
  "dec_int i = (if i < 0 then 45 # dec_nat (nat (- i)) else dec_nat (nat i))"

fun py_str :: "cell \<Rightarrow> ustring" where
  "py_str CNone = ustr ''None''"
| "py_str (CStr s) = s"
| "py_str (CInt i) = dec_int i"
| "py_str (COther s) = s"

text \<open>\<open>v in (None, "")\<close>\<close>

definition is_blank :: "cell \<Rightarrow> bool" where
  "is_blank v = (v = CNone \<or> v = CStr [])"

text \<open>A worksheet: rows and columns are numbered from 1.\<close>

record sheet =
  max_row :: nat
  max_column :: nat
  cell_value :: "nat \<Rightarrow> nat \<Rightarrow> cell"

datatype error =
    TooFewFiles
  | HeaderNotFound ustring
  | NoHeadersFound
  | InvalidAlignmentMode
  | Propagated

section \<open>Header locator\<close>

text \<open>The inner count of \<open>locate_header_row\<close>: cells of row \<open>r\<close> that hold a string
  which is not all whitespace.\<close>

definition text_count :: "sheet \<Rightarrow> nat \<Rightarrow> nat" where
  "text_count sh r =
     length (filter (\<lambda>cc. case cell_value sh r cc of
                             CStr s \<Rightarrow> s \<noteq> [] \<and> py_strip s \<noteq> []
                           | _ \<Rightarrow> False)
               [1 ..< max_column sh + 1])"

definition is_match :: "sheet \<Rightarrow> ustring \<Rightarrow> nat \<Rightarrow> nat \<Rightarrow> bool" where
  "is_match sh key r c =
     (case cell_value sh r c of
        CStr s \<Rightarrow> s \<noteq> [] \<and> normalize_header (Some s) = key
      | _ \<Rightarrow> False)"

definition candidates :: "sheet \<Rightarrow> ustring \<Rightarrow> (nat \<times> nat \<times> nat) list" where
  "candidates sh key =
     concat (map (\<lambda>r. concat (map (\<lambda>c. if is_match sh key r c then [(r, c, text_count sh r)] else [])
                                   [1 ..< max_column sh + 1]))
                 [1 ..< max_row sh + 1])"

text \<open>The sort key \<open>lambda x: (-x[2], x[0], x[1])\<close>.\<close>

definition cand_key :: "nat \<times> nat \<times> nat \<Rightarrow> int \<times> int \<times> int" where
  "cand_key t = (case t of (r, c, cnt) \<Rightarrow> (- int cnt, int r, int c))"

definition best :: "(nat \<times> nat \<times> nat) list \<Rightarrow> nat \<times> nat" where
  "best ts = (case hd (sort_key cand_key ts) of (r, c, cnt) \<Rightarrow> (r, c))"

definition locate_header_row :: "sheet \<Rightarrow> ustring \<Rightarrow> int \<Rightarrow> error + nat \<times> nat" where
  "locate_header_row sh key top_rows_prefer =
     (let cands = candidates sh key in
      if cands = [] then Inl (HeaderNotFound key)
      else
        let top_candidates = filter (\<lambda>t. int (fst t) \<le> top_rows_prefer) cands in
        if top_candidates \<noteq> [] then Inr (best top_candidates)
        else Inr (best cands))"

section \<open>Header extractor and row index\<close>

text \<open>A Python \<open>dict\<close> keeps insertion order: an association list with distinct keys,
  written with \<open>AList.update\<close> (replace in place, else append).\<close>

type_synonym header_map = "(ustring \<times> nat \<times> nat \<times> ustring) list"

definition headers_from_row :: "sheet \<Rightarrow> nat \<Rightarrow> header_map" where
  "headers_from_row sh header_row =
     fold (\<lambda>c hdrs.
             let v = cell_value sh header_row c in
             if v \<noteq> CNone then
               let display = py_strip (py_str v) in
               if display \<noteq> [] then
                 let norm = normalize_header (Some display) in
                 if norm \<noteq> [] \<and> map_of hdrs norm = None
                 then hdrs @ [(norm, header_row, c, display)]
                 else hdrs
               else hdrs
             else hdrs)
          [1 ..< max_column sh + 1] []"

definition build_row_dict :: "sheet \<Rightarrow> nat \<Rightarrow> nat \<Rightarrow> (ustring \<times> nat) list" where
  "build_row_dict sh header_row key_col =
     fold (\<lambda>r row_dict.
             let key = cell_value sh r key_col in
             if \<not> is_blank key
             then AList.update (normalize_header (Some (py_str key))) r row_dict
             else row_dict)
          [header_row + 1 ..< max_row sh + 1] []"

section \<open>Cell comparison\<close>

definition normalize_key :: "cell \<Rightarrow> ustring" where
  "normalize_key k = (if k = CNone then [] else py_strip (py_str k))"

definition safe_eq :: "cell \<Rightarrow> cell \<Rightarrow> bool" where
  "safe_eq a b =
     (if is_blank a \<and> is_blank b then False
      else normalize_key a = normalize_key b)"

datatype fill = NoFill | AltFill | MatchFill | DelFill | AddFill

text \<open>The body of the inner loop of \<open>compare_excel_files\<close> for one pair of output
  cells: \<open>init\<close> is the fill the two cells have before (the zebra fill of odd rows, or
  none), the result the fills of the file-1 and the file-2 cell after.\<close>

definition cell_fills :: "fill \<Rightarrow> cell \<Rightarrow> cell \<Rightarrow> fill \<times> fill" where
  "cell_fills init val1 val2 =
     (if is_blank val1 \<and> is_blank val2 then (init, init)
      else if safe_eq val1 val2 then (MatchFill, MatchFill)
      else (if \<not> is_blank val1 then DelFill else init,
            if \<not> is_blank val2 then AddFill else init))"

datatype verdict = Match | Removed | Added | Blank

fun verdict_of :: "fill \<Rightarrow> verdict" where
  "verdict_of MatchFill = Match"
| "verdict_of DelFill = Removed"
| "verdict_of AddFill = Added"
| "verdict_of NoFill = Blank"
| "verdict_of AltFill = Blank"

section \<open>Key order\<close>

text \<open>
  \<open>_sort_keys\<close>. Python's \<open>float(x)\<close> is a parameter \<open>to_float\<close>: \<open>None\<close> where it
  raises, else the value in a linear order of numbers (NaN, which is unordered, is outside
  this model). The tuples \<open>(0, float(x))\<close> and \<open>(1, x)\<close> are written
  \<open>(0, Some f, [])\<close> and \<open>(1, None, x)\<close>, which compare as the Python tuples do.
  \<open>sorted\<close> is stable, and so is \<open>sort_key\<close>.
\<close>

definition keyfn :: "(ustring \<Rightarrow> 'f option) \<Rightarrow> ustring \<Rightarrow> nat \<times> 'f option \<times> ustring" where
  "keyfn to_float x =
     (case to_float x of Some f \<Rightarrow> (0, Some f, []) | None \<Rightarrow> (1, None, x))"

definition sort_keys :: "(ustring \<Rightarrow> ('f::linorder) option) \<Rightarrow> ustring list \<Rightarrow> ustring list" where
  "sort_keys to_float keys = sort_key (keyfn to_float) keys"

section \<open>Column matcher\<close>

fun sample_loop :: "sheet \<Rightarrow> nat \<Rightarrow> int \<Rightarrow> nat list \<Rightarrow> ustring list \<Rightarrow> ustring list" where
  "sample_loop sh col max_samples [] vals = vals"
| "sample_loop sh col max_samples (r # rs) vals =
     (let v = cell_value sh r col in
      if \<not> is_blank v then
        (let vals' = vals @ [normalize_key v] in
         if int (length vals') \<ge> max_samples then vals'
         else sample_loop sh col max_samples rs vals')
      else sample_loop sh col max_samples rs vals)"

definition sample_column_values :: "sheet \<Rightarrow> nat \<Rightarrow> nat \<Rightarrow> int \<Rightarrow> ustring list" where
  "sample_column_values sh header_row col max_samples =
     sample_loop sh col max_samples
       [header_row + 1 ..<
          nat (min (int (max_row sh) + 1) (int header_row + 1 + max_samples * 5))] []"

text \<open>Scores are Python floats; they are modelled as reals (no rounding, no NaN).\<close>

definition jaccard :: "ustring list \<Rightarrow> ustring list \<Rightarrow> real" where
  "jaccard a b =
     (let sa = set a; sb = set b in
      if sa = {} \<and> sb = {} then 1
      else if sa = {} \<or> sb = {} then 0
      else real (card (sa \<inter> sb)) / real (card (sa \<union> sb)))"

text \<open>\<open>ratio\<close> stands for \<open>SequenceMatcher(None, a, b).ratio()\<close> of \<open>difflib\<close>.\<close>

definition name_ratio :: "(ustring \<Rightarrow> ustring \<Rightarrow> real) \<Rightarrow> ustring \<Rightarrow> ustring \<Rightarrow> real" where
  "name_ratio ratio a b = (if a = [] \<or> b = [] then 0 else ratio (py_lower a) (py_lower b))"

type_synonym score_row = "real \<times> ustring \<times> ustring \<times> real \<times> real"

fun greedy ::
  "real \<Rightarrow> score_row list \<Rightarrow> ustring set \<Rightarrow> ustring set \<Rightarrow> (ustring \<times> ustring) list
     \<Rightarrow> (ustring \<times> ustring) list" where
  "greedy min_score [] mapped1 mapped2 mapping = mapping"
| "greedy min_score ((score, h1, h2, name_s, data_s) # rest) mapped1 mapped2 mapping =
     (if score < min_score then mapping
      else if h1 \<in> mapped1 \<or> h2 \<in> mapped2 then greedy min_score rest mapped1 mapped2 mapping
      else greedy min_score rest (insert h1 mapped1) (insert h2 mapped2)
             (AList.update h1 h2 mapping))"

definition samples_of :: "sheet \<Rightarrow> nat \<Rightarrow> int \<Rightarrow> header_map \<Rightarrow> (ustring \<times> ustring list) list" where
  "samples_of sh header_row sample_size hdrs =
     map (\<lambda>(h, r, c, disp). (h, sample_column_values sh header_row c sample_size)) hdrs"

definition get_or :: "('k \<times> 'v) list \<Rightarrow> 'k \<Rightarrow> 'v \<Rightarrow> 'v" where
  "get_or d k dflt = (case map_of d k of Some v \<Rightarrow> v | None \<Rightarrow> dflt)"

definition score_rows ::
  "(ustring \<Rightarrow> ustring \<Rightarrow> real) \<Rightarrow> header_map \<Rightarrow> header_map \<Rightarrow> sheet \<Rightarrow> sheet \<Rightarrow> nat \<Rightarrow> nat
     \<Rightarrow> real \<Rightarrow> real \<Rightarrow> int \<Rightarrow> score_row list" where
  "score_rows ratio headers1 headers2 sheet1 sheet2 header_row1 header_row2
       weight_name weight_data sample_size =
     (let samples1 = samples_of sheet1 header_row1 sample_size headers1;
          samples2 = samples_of sheet2 header_row2 sample_size headers2
      in concat (map (\<lambda>(h1, r1, c1, d1).
                   map (\<lambda>(h2, r2, c2, d2).
                          let name_s = name_ratio ratio d1 d2;
                              data_s = jaccard (get_or samples1 h1 []) (get_or samples2 h2 []);
                              score = weight_name * name_s + weight_data * data_s
                          in (score, h1, h2, name_s, data_s))
                       headers2)
                 headers1))"

definition match_columns_by_data ::
  "(ustring \<Rightarrow> ustring \<Rightarrow> real) \<Rightarrow> header_map \<Rightarrow> header_map \<Rightarrow> sheet \<Rightarrow> sheet \<Rightarrow> nat \<Rightarrow> nat
     \<Rightarrow> real \<Rightarrow> real \<Rightarrow> real \<Rightarrow> int \<Rightarrow> (ustring \<times> ustring) list" where
  "match_columns_by_data ratio headers1 headers2 sheet1 sheet2 header_row1 header_row2
       weight_name weight_data min_score sample_size =
     (let scores = score_rows ratio headers1 headers2 sheet1 sheet2 header_row1 header_row2
                     weight_name weight_data sample_size;
          sorted_scores = sort_key (\<lambda>x. - fst x) scores
      in greedy min_score sorted_scores {} {} [])"

section \<open>Progress reporting\<close>

text \<open>
  What a call of the caller's \<open>progress_cb\<close> does: return, raise an exception that
  derives from \<open>Exception\<close>, or raise one that does not (\<open>KeyboardInterrupt\<close>,
  \<open>SystemExit\<close>). A callback may keep state: its outcome depends on the percentages it
  has been called with so far. The trace \<open>tr\<close> lists the percentages the callback was called with.
\<close>

datatype cb_outcome = Returns | RaisesException | RaisesBaseException

type_synonym callback = "int list \<Rightarrow> int \<Rightarrow> cb_outcome"

text \<open>\<open>_progress\<close> of both engines: \<open>try: if callable(cb): cb(int(p))\<close>
  \<open>except Exception: pass\<close>.\<close>

definition progress :: "callback option \<Rightarrow> int \<Rightarrow> int list \<Rightarrow> error option \<times> int list" where
  "progress progress_cb p tr =
     (case progress_cb of
        None \<Rightarrow> (None, tr)
      | Some cb \<Rightarrow>
          (case cb tr p of
             Returns \<Rightarrow> (None, tr @ [p])
           | RaisesException \<Rightarrow> (None, tr @ [p])
           | RaisesBaseException \<Rightarrow> (Some Propagated, tr @ [p])))"

definition and_then ::
  "error option \<times> int list \<Rightarrow> (int list \<Rightarrow> (error + 'a) \<times> int list) \<Rightarrow> (error + 'a) \<times> int list" where
  "and_then st k = (case st of (Some e, tr) \<Rightarrow> (Inl e, tr) | (None, tr) \<Rightarrow> k tr)"

section \<open>Tabular comparison\<close>

record options =
  key_header :: "ustring option"
  compare_mode :: ustring
  weight_name :: real
  weight_data :: real
  min_score :: real
  sample_size :: int
  top_rows_prefer :: int
  progress_cb :: "callback option"

definition ordered_norms_from_map :: "header_map \<Rightarrow> ustring list" where
  "ordered_norms_from_map hmap =
     map fst (sort_key snd (map (\<lambda>(norm, r, c, disp). (norm, c)) hmap))"

definition header_list_of ::
  "ustring \<Rightarrow> header_map \<Rightarrow> header_map \<Rightarrow> (ustring \<times> ustring) list \<Rightarrow> ustring list" where
  "header_list_of key_header_norm headers1_row headers2_row col_match =
     (let hl0 = (if map_of headers1_row key_header_norm \<noteq> None
                    \<or> map_of headers2_row key_header_norm \<noteq> None
                 then [key_header_norm] else []);
          (hl1, used_in_file2) =
            fold (\<lambda>h (hl, used).
                    if h = key_header_norm then (hl, used)
                    else
                      let hl' = (if h \<notin> set hl then hl @ [h] else hl) in
                      (case map_of col_match h of
                         Some partner \<Rightarrow> (hl', if partner \<noteq> [] then insert partner used else used)
                       | None \<Rightarrow> (hl', used)))
                 (ordered_norms_from_map headers1_row) (hl0, {})
      in fold (\<lambda>h hl.
                 if h = key_header_norm then hl
                 else if h \<in> set hl \<or> h \<in> used_in_file2 then hl
                 else hl @ [h])
              (ordered_norms_from_map headers2_row) hl1)"

text \<open>One entry of \<open>header_map\<close>: the normalized header, the source columns in file 1
  and file 2 (if any) and the two display texts. The output columns are \<open>2 + 2 * j\<close> and
  \<open>3 + 2 * j\<close> for entry \<open>j\<close>.\<close>

type_synonym header_entry = "ustring \<times> nat option \<times> nat option \<times> ustring \<times> ustring"

definition header_entry_of ::
  "header_map \<Rightarrow> header_map \<Rightarrow> (ustring \<times> ustring) list \<Rightarrow> ustring \<Rightarrow> header_entry" where
  "header_entry_of headers1_row headers2_row col_match hnorm =
     (let r1c = map_of headers1_row hnorm;
          r2c = (case (map_of headers1_row hnorm, map_of col_match hnorm) of
                   (Some _, Some partner_key) \<Rightarrow> map_of headers2_row partner_key
                 | _ \<Rightarrow> map_of headers2_row hnorm);
          r1c = (if r1c = None \<and> r2c \<noteq> None then
                   (case find (\<lambda>(k, v). v = hnorm) col_match of
                      Some (rev_key, _) \<Rightarrow> if rev_key \<noteq> [] then map_of headers1_row rev_key else None
                    | None \<Rightarrow> None)
                 else r1c);
          c1 = map_option (\<lambda>(r, c, disp). c) r1c;
          c2 = map_option (\<lambda>(r, c, disp). c) r2c;
          disp1 = (case r1c of Some (r, c, disp) \<Rightarrow> disp
                   | None \<Rightarrow> (case r2c of Some (r, c, disp) \<Rightarrow> disp | None \<Rightarrow> hnorm));
          disp2 = (case r2c of Some (r, c, disp) \<Rightarrow> disp
                   | None \<Rightarrow> (case r1c of Some (r, c, disp) \<Rightarrow> disp | None \<Rightarrow> hnorm))
      in (hnorm, c1, c2, disp1, disp2))"

text \<open>An aligned row: the row in file 1, the row in file 2, the label.\<close>

type_synonym aligned_row = "nat option \<times> nat option \<times> ustring"

text \<open>\<open>if r: raw = sheet.cell(row=r, column=key_col).value;\<close>
  \<open>disp = str(raw) if raw not in (None, "") else ""\<close>\<close>

definition disp_of :: "sheet \<Rightarrow> nat option \<Rightarrow> nat \<Rightarrow> ustring" where
  "disp_of sh r key_col =
     (case r of
        None \<Rightarrow> []
      | Some n \<Rightarrow>
          if n = 0 then []
          else let raw = cell_value sh n key_col in
               if \<not> is_blank raw then py_str raw else [])"

text \<open>\<open>disp or (r or '')\<close> inside the f-string.\<close>

definition label_part :: "ustring \<Rightarrow> nat option \<Rightarrow> ustring" where
  "label_part disp r =
     (if disp \<noteq> [] then disp
      else (case r of None \<Rightarrow> [] | Some n \<Rightarrow> if n = 0 then [] else dec_nat n))"

definition label_of :: "ustring \<Rightarrow> nat option \<Rightarrow> ustring \<Rightarrow> nat option \<Rightarrow> ustring" where
  "label_of disp1 r1 disp2 r2 = label_part disp1 r1 @ [47] @ label_part disp2 r2"

text \<open>The \<open>by_key\<close> branch. \<open>all_keys\<close> is \<open>list(set(row_dict1.keys()) | set(row_dict2.keys()))\<close>:
  the keys of both dictionaries, each once, in the order Python's set iterates them.\<close>

definition rows_by_key ::
  "(ustring \<Rightarrow> ('f::linorder) option) \<Rightarrow> ustring list \<Rightarrow> (ustring \<times> nat) list \<Rightarrow> (ustring \<times> nat) list
     \<Rightarrow> sheet \<Rightarrow> sheet \<Rightarrow> nat \<Rightarrow> nat \<Rightarrow> aligned_row list" where
  "rows_by_key to_float all_keys row_dict1 row_dict2 sheet1 sheet2 key_col1 key_col2 =
     map (\<lambda>key_norm.
            let r1 = map_of row_dict1 key_norm;
                r2 = map_of row_dict2 key_norm;
                disp1 = disp_of sheet1 r1 key_col1;
                disp2 = disp_of sheet2 r2 key_col2
            in (r1, r2, label_of disp1 r1 disp2 r2))
         (sort_keys to_float all_keys)"

definition rows_by_row :: "sheet \<Rightarrow> sheet \<Rightarrow> nat \<Rightarrow> nat \<Rightarrow> nat \<Rightarrow> nat \<Rightarrow> aligned_row list" where
  "rows_by_row sheet1 sheet2 key_row1 key_row2 key_col1 key_col2 =
     (let max_after = max (int (max_row sheet1) - int key_row1) (int (max_row sheet2) - int key_row2)
      in map (\<lambda>offset.
                let r1 = (if key_row1 + offset \<le> max_row sheet1 then Some (key_row1 + offset) else None);
                    r2 = (if key_row2 + offset \<le> max_row sheet2 then Some (key_row2 + offset) else None);
                    disp1 = (if key_col1 \<noteq> 0 then disp_of sheet1 r1 key_col1 else []);
                    disp2 = (if key_col2 \<noteq> 0 then disp_of sheet2 r2 key_col2 else [])
                in (r1, r2, label_of disp1 r1 disp2 r2))
             [1 ..< nat (max_after + 1)])"

text \<open>\<open>sheet.cell(row=r, column=col).value if (r and col) else None\<close>\<close>

definition fetch :: "sheet \<Rightarrow> nat option \<Rightarrow> nat option \<Rightarrow> cell" where
  "fetch sh r col =
     (case (r, col) of
        (Some n, Some c) \<Rightarrow> if n \<noteq> 0 \<and> c \<noteq> 0 then cell_value sh n c else CNone
      | _ \<Rightarrow> CNone)"

text \<open>The fill of the cells of output row \<open>i\<close> before the comparison: \<open>alt_fill\<close> when
  \<open>i % 2 == 1\<close>.\<close>

definition zebra :: "nat \<Rightarrow> fill" where
  "zebra i = (if i mod 2 = 1 then AltFill else NoFill)"

text \<open>An output cell is the value written and its fill; an output row is the label and one
  pair of cells per header.\<close>

type_synonym out_row = "ustring \<times> ((cell \<times> fill) \<times> (cell \<times> fill)) list"

definition write_row :: "header_entry list \<Rightarrow> sheet \<Rightarrow> sheet \<Rightarrow> nat \<Rightarrow> aligned_row \<Rightarrow> out_row" where
  "write_row header_map sheet1 sheet2 i row =
     (case row of (r1, r2, label) \<Rightarrow>
        (label,
         map (\<lambda>(hnorm, col1, col2, disp1, disp2).
                let val1 = fetch sheet1 r1 col1;
                    val2 = fetch sheet2 r2 col2;
                    (f1, f2) = cell_fills (zebra i) val1 val2
                in ((val1, f1), (val2, f2)))
             header_map))"

text \<open>The loop over \<open>enumerate(rows_to_compare)\<close>, with its progress call every 20 rows;
  \<open>int(60 * (i / total))\<close> is \<open>60 * i div total_rows\<close> (the float quotient is below 1 and the
  product below 60; rounding is not modelled).\<close>

fun write_rows ::
  "callback option \<Rightarrow> nat \<Rightarrow> header_entry list \<Rightarrow> sheet \<Rightarrow> sheet \<Rightarrow> nat \<Rightarrow> aligned_row list
     \<Rightarrow> int list \<Rightarrow> (error + out_row list) \<times> int list" where
  "write_rows cb total_rows header_map sheet1 sheet2 i [] tr = (Inr [], tr)"
| "write_rows cb total_rows header_map sheet1 sheet2 i (row # rest) tr =
     (let out = write_row header_map sheet1 sheet2 i row in
      and_then (if i mod 20 = 0 then progress cb (30 + int (60 * i div total_rows)) tr else (None, tr))
        (\<lambda>tr. case write_rows cb total_rows header_map sheet1 sheet2 (i + 1) rest tr of
                  (Inl e, tr) \<Rightarrow> (Inl e, tr)
                | (Inr outs, tr) \<Rightarrow> (Inr (out # outs), tr)))"

record comparison =
  out_headers :: "(ustring \<times> ustring) list"
  out_rows :: "out_row list"
  rows_compared :: nat

text \<open>
  \<open>compare_excel_files\<close>. \<open>file_list\<close> is the list of the first sheets of the loaded
  workbooks (loading, saving, colours, column widths and the legend are left to the
  spreadsheet library). Besides \<open>ratio\<close> and \<open>to_float\<close>, \<open>set_iter\<close> is the
  order in which Python iterates the set of keys.
\<close>

definition compare_excel_files ::
  "(ustring \<Rightarrow> ustring \<Rightarrow> real) \<Rightarrow> (ustring \<Rightarrow> ('f::linorder) option) \<Rightarrow> (ustring list \<Rightarrow> ustring list)
     \<Rightarrow> sheet list \<Rightarrow> options \<Rightarrow> (error + comparison) \<times> int list" where
  "compare_excel_files ratio to_float set_iter file_list opts =
     (if length file_list < 2 then (Inl TooFewFiles, [])
      else
        let cb = progress_cb opts in
        and_then (progress cb 1 []) (\<lambda>tr.
          let sheet1 = file_list ! 0;
              sheet2 = file_list ! 1;
              key_header_norm = normalize_header (key_header opts)
          in
          case locate_header_row sheet1 key_header_norm (top_rows_prefer opts) of
            Inl e \<Rightarrow> (Inl e, tr)
          | Inr (key_row1, key_col1) \<Rightarrow>
          case locate_header_row sheet2 key_header_norm (top_rows_prefer opts) of
            Inl e \<Rightarrow> (Inl e, tr)
          | Inr (key_row2, key_col2) \<Rightarrow>
          and_then (progress cb 5 tr) (\<lambda>tr.
            let row_dict1 = build_row_dict sheet1 key_row1 key_col1;
                row_dict2 = build_row_dict sheet2 key_row2 key_col2;
                headers1_row = headers_from_row sheet1 key_row1;
                headers2_row = headers_from_row sheet2 key_row2;
                col_match = match_columns_by_data ratio headers1_row headers2_row sheet1 sheet2
                              key_row1 key_row2 (weight_name opts) (weight_data opts)
                              (min_score opts) (sample_size opts);
                header_list = header_list_of key_header_norm headers1_row headers2_row col_match
            in
            if header_list = [] then (Inl NoHeadersFound, tr)
            else
            and_then (progress cb 15 tr) (\<lambda>tr.
              let header_map = map (header_entry_of headers1_row headers2_row col_match) header_list
              in
              and_then (progress cb 30 tr) (\<lambda>tr.
                if compare_mode opts \<noteq> ustr ''by_key'' \<and> compare_mode opts \<noteq> ustr ''by_row''
                then (Inl InvalidAlignmentMode, tr)
                else
                let rows_to_compare =
                      (if compare_mode opts = ustr ''by_key''
                       then rows_by_key to_float
                              (set_iter (map fst row_dict1 @ map fst row_dict2))
                              row_dict1 row_dict2 sheet1 sheet2 key_col1 key_col2
                       else rows_by_row sheet1 sheet2 key_row1 key_row2 key_col1 key_col2);
                    total_rows = max 1 (length rows_to_compare)
                in
                case write_rows cb total_rows header_map sheet1 sheet2 0 rows_to_compare tr of
                  (Inl e, tr) \<Rightarrow> (Inl e, tr)
                | (Inr outs, tr) \<Rightarrow>
                and_then (progress cb 95 tr) (\<lambda>tr.
                and_then (progress cb 100 tr) (\<lambda>tr.
                  (Inr \<lparr> out_headers = map (\<lambda>(hnorm, c1, c2, disp1, disp2). (disp1, disp2)) header_map,
                         out_rows = outs,
                         rows_compared = length rows_to_compare \<rparr>, tr))))))))"

section \<open>Document comparison\<close>

text \<open>
  \<open>compare_pdfs\<close> and \<open>save_side_by_side_pdf\<close>, as far as control and progress go. A
  document is the list of its page texts; page rendering, the image and the word overlays
  are the work of the PDF and imaging libraries and are taken to succeed.
  \<open>int(20 * (i / max(1, num_pages)))\<close> is \<open>20 * i div max 1 num_pages\<close>.
\<close>

type_synonym pdf = "ustring list"

fun page_loop :: "callback option \<Rightarrow> nat \<Rightarrow> nat list \<Rightarrow> int list \<Rightarrow> (error + unit) \<times> int list" where
  "page_loop cb num_pages [] tr = (Inr (), tr)"
| "page_loop cb num_pages (i # rest) tr =
     and_then (progress cb (30 + int (20 * i div max 1 num_pages)) tr) (\<lambda>tr.
     and_then (progress cb (50 + int (20 * i div max 1 num_pages)) tr) (\<lambda>tr.
       page_loop cb num_pages rest tr))"

definition save_side_by_side_pdf ::
  "nat \<Rightarrow> nat \<Rightarrow> nat \<Rightarrow> nat \<Rightarrow> callback option \<Rightarrow> int list \<Rightarrow> (error + unit) \<times> int list" where
  "save_side_by_side_pdf images1 images2 texts1 texts2 cb tr =
     (let num_pages = min (min images1 images2) (min texts1 texts2)
      in page_loop cb num_pages [0 ..< num_pages] tr)"

text \<open>The result is the number of pages compared (\<open>meta["pages_compared"]\<close>).\<close>

definition compare_pdfs :: "pdf list \<Rightarrow> callback option \<Rightarrow> (error + nat) \<times> int list" where
  "compare_pdfs file_list cb =
     (if length file_list < 2 then (Inl TooFewFiles, [])
      else
        let file1 = file_list ! 0; file2 = file_list ! 1 in
        and_then (progress cb 1 []) (\<lambda>tr.
        and_then (progress cb 20 tr) (\<lambda>tr.
        and_then (progress cb 30 tr) (\<lambda>tr.
          case save_side_by_side_pdf (length file1) (length file2) (length file1) (length file2) cb tr of
            (Inl e, tr) \<Rightarrow> (Inl e, tr)
          | (Inr u, tr) \<Rightarrow>
          and_then (progress cb 95 tr) (\<lambda>tr.
          and_then (progress cb 100 tr) (\<lambda>tr.
            (Inr (min (length file1) (length file2)), tr)))))))"

section \<open>Auxiliary notions and example inputs\<close>



text \<open>\<open>_normalize_key\<close> spelled out: the \<open>str()\<close> text without surrounding whitespace,
  and the empty text for \<open>None\<close>.\<close>

definition stripped_text :: "cell \<Rightarrow> ustring" where
  "stripped_text v = (case v of CNone \<Rightarrow> [] | _ \<Rightarrow> py_strip (py_str v))"

text \<open>A sheet with the header \<open>ID\<close> in row 1 and the key \<open>a\<close> in rows 2 and 3.\<close>

definition dup_sheet :: sheet where
  "dup_sheet = \<lparr> max_row = 3, max_column = 1,
     cell_value = (\<lambda>r c. if c = 1 then (if r = 1 then CStr (ustr ''ID'') else CStr (ustr ''a''))
                          else CNone) \<rparr>"

text \<open>Two documents of two pages each, and a callback that always returns.\<close>

definition two_pages :: pdf where
  "two_pages = [ustr ''one'', ustr ''two'']"

definition quiet_cb :: callback where
  "quiet_cb = (\<lambda>tr p. Returns)"

text \<open>
  The selection policy of the header locator in words: a candidate is a cell inside the
  grid that holds a non-empty string whose normal form is the key; one candidate is
  preferred to another when its row has more textual cells, or as many and it comes first
  by row, then by column; the chosen cell is a candidate in scope that is preferred to
  every candidate in scope.
\<close>

definition is_candidate :: "sheet \<Rightarrow> ustring \<Rightarrow> nat \<Rightarrow> nat \<Rightarrow> bool" where
  "is_candidate sh key r c =
     (1 \<le> r \<and> r \<le> max_row sh \<and> 1 \<le> c \<and> c \<le> max_column sh
      \<and> (\<exists>s. cell_value sh r c = CStr s \<and> s \<noteq> [] \<and> normalize_header (Some s) = key))"

definition preferred :: "sheet \<Rightarrow> nat \<times> nat \<Rightarrow> nat \<times> nat \<Rightarrow> bool" where
  "preferred sh p q =
     (text_count sh (fst q) < text_count sh (fst p)
      \<or> (text_count sh (fst q) = text_count sh (fst p)
          \<and> (fst p < fst q \<or> (fst p = fst q \<and> snd p \<le> snd q))))"

definition chosen_among :: "sheet \<Rightarrow> ustring \<Rightarrow> (nat \<Rightarrow> bool) \<Rightarrow> nat \<times> nat \<Rightarrow> bool" where
  "chosen_among sh key in_scope p =
     (is_candidate sh key (fst p) (snd p) \<and> in_scope (fst p)
      \<and> (\<forall>r c. is_candidate sh key r c \<and> in_scope r \<longrightarrow> preferred sh p (r, c)))"


text \<open>A sheet whose key header is the number 1, not the text \<open>1\<close>.\<close>

definition int_sheet :: sheet where
  "int_sheet = \<lparr> max_row = 2, max_column = 2,
     cell_value = (\<lambda>r c. if r = 1 \<and> c = 1 then CInt 1
                          else if r = 1 \<and> c = 2 then CStr (ustr ''Name'')
                          else CNone) \<rparr>"

text \<open>A column \<open>Name\<close> holding the value \<open>A.B\<close>.\<close>

definition upper_sheet :: sheet where
  "upper_sheet = \<lparr> max_row = 2, max_column = 1,
     cell_value = (\<lambda>r c. if c = 1 then (if r = 1 then CStr (ustr ''Name'') else CStr (ustr ''A.B''))
                          else CNone) \<rparr>"


text \<open>An instance of \<open>to_float\<close> for examples: \<open>float()\<close> on the strings of ASCII digits.\<close>

definition digits_value :: "ustring \<Rightarrow> nat" where
  "digits_value s = foldl (\<lambda>a c. 10 * a + (c - 48)) 0 s"

definition dec_float :: "ustring \<Rightarrow> real option" where
  "dec_float s =
     (if s \<noteq> [] \<and> list_all (\<lambda>c. 48 \<le> c \<and> c \<le> 57) s then Some (real (digits_value s)) else None)"

text \<open>Two grids with the headers \<open>ID\<close> and \<open>Name\<close> and the rows (1, A), (2, B) and
  (1, A), (2, C); a name ratio that is 1 on equal texts and 0 otherwise.\<close>

definition grid_a :: sheet where
  "grid_a = \<lparr> max_row = 3, max_column = 2,
     cell_value = (\<lambda>r c. if r = 1 \<and> c = 1 then CStr (ustr ''ID'')
                          else if r = 1 \<and> c = 2 then CStr (ustr ''Name'')
                          else if r = 2 \<and> c = 1 then CInt 1
                          else if r = 2 \<and> c = 2 then CStr (ustr ''A'')
                          else if r = 3 \<and> c = 1 then CInt 2
                          else if r = 3 \<and> c = 2 then CStr (ustr ''B'')
                          else CNone) \<rparr>"

definition grid_b :: sheet where
  "grid_b = \<lparr> max_row = 3, max_column = 2,
     cell_value = (\<lambda>r c. if r = 1 \<and> c = 1 then CStr (ustr ''ID'')
                          else if r = 1 \<and> c = 2 then CStr (ustr ''Name'')
                          else if r = 2 \<and> c = 1 then CInt 1
                          else if r = 2 \<and> c = 2 then CStr (ustr ''A'')
                          else if r = 3 \<and> c = 1 then CInt 2
                          else if r = 3 \<and> c = 2 then CStr (ustr ''C'')
                          else CNone) \<rparr>"

definition same_ratio :: "ustring \<Rightarrow> ustring \<Rightarrow> real" where
  "same_ratio a b = (if a = b then 1 else 0)"



text \<open>A callback with every raised \<open>Exception\<close> replaced by a normal return; a callback
  that raises an \<open>Exception\<close> at every call; the default options with the key header
  \<open>ID\<close>.\<close>

definition calm :: "callback \<Rightarrow> callback" where
  "calm cb = (\<lambda>tr p. if cb tr p = RaisesException then Returns else cb tr p)"

definition raising_cb :: callback where
  "raising_cb = (\<lambda>tr p. RaisesException)"

definition default_options :: options where
  "default_options = \<lparr> key_header = Some (ustr ''ID''), compare_mode = ustr ''by_key'',
     weight_name = 1/4, weight_data = 3/4, min_score = 1/5, sample_size = 40,
     top_rows_prefer = 20, progress_cb = None \<rparr>"


text \<open>A progress trace is monotone up to \<open>b\<close>: it is sorted and all its values lie between
  0 and \<open>b\<close>.\<close>

definition mono_upto :: "int \<Rightarrow> int list \<Rightarrow> bool" where
  "mono_upto b tr = (0 \<le> b \<and> sorted tr \<and> list_all (\<lambda>p. 0 \<le> p \<and> p \<le> b) tr)"


section \<open>Properties of the normalizer\<close>





























section \<open>Properties of the header locator\<close>

lemma is_match_iff:
  "is_match sh key r c \<longleftrightarrow> (\<exists>s. cell_value sh r c = CStr s \<and> s \<noteq> [] \<and> normalize_header (Some s) = key)"
  by (cases "cell_value sh r c") (simp_all add: is_match_def)

lemma set_candidates:
  "(r, c, n) \<in> set (candidates sh key) \<longleftrightarrow> is_candidate sh key r c \<and> n = text_count sh r"
  by (auto simp: candidates_def is_candidate_def is_match_iff)

lemma candidates_Nil: "candidates sh key = [] \<longleftrightarrow> (\<forall>r c. \<not> is_candidate sh key r c)"
proof
  assume e: "candidates sh key = []"
  show "\<forall>r c. \<not> is_candidate sh key r c"
  proof (intro allI notI)
    fix r c
    assume "is_candidate sh key r c"
    then have "(r, c, text_count sh r) \<in> set (candidates sh key)" by (simp add: set_candidates)
    with e show False by simp
  qed
next
  assume a: "\<forall>r c. \<not> is_candidate sh key r c"
  show "candidates sh key = []"
  proof (cases "candidates sh key")
    case Nil
    then show ?thesis .
  next
    case (Cons t ts)
    obtain r c n where "t = (r, c, n)" by (cases t)
    with Cons have "(r, c, n) \<in> set (candidates sh key)" by simp
    with a show ?thesis by (simp add: set_candidates)
  qed
qed

lemma hd_sort_key_min:
  assumes "ts \<noteq> []"
  shows "hd (sort_key f ts) \<in> set ts \<and> (\<forall>t\<in>set ts. f (hd (sort_key f ts)) \<le> f t)"
proof -
  let ?s = "sort_key f ts"
  from assms have ne: "?s \<noteq> []" by (metis length_0_conv length_sort)
  then obtain x xs where s: "?s = x # xs" by (cases ?s) auto
  have "sorted (map f ?s)" by (rule sorted_sort_key)
  with s have le: "\<forall>y\<in>set xs. f x \<le> f y" by simp
  have "set ?s = set ts" by simp
  with s have st: "set ts = insert x (set xs)" by simp
  from s st le show ?thesis by auto
qed

lemma triple_le:
  "((a::int, b::int, c::int) \<le> (a', b', c')) \<longleftrightarrow> (a < a' \<or> (a = a' \<and> (b < b' \<or> (b = b' \<and> c \<le> c'))))"
  unfolding less_eq_prod_def by (simp only: fst_conv snd_conv) linarith

lemma cand_key_le:
  "cand_key (r, c, text_count sh r) \<le> cand_key (r', c', text_count sh r')
     \<longleftrightarrow> preferred sh (r, c) (r', c')"
  unfolding cand_key_def preferred_def prod.case triple_le fst_conv snd_conv by linarith

lemma best_chosen:
  assumes sub: "\<And>r c n. (r, c, n) \<in> set ts \<longleftrightarrow> is_candidate sh key r c \<and> in_scope r \<and> n = text_count sh r"
    and ne: "ts \<noteq> []"
  shows "chosen_among sh key in_scope (best ts)"
proof -
  obtain r c n where h: "hd (sort_key cand_key ts) = (r, c, n)" by (cases "hd (sort_key cand_key ts)")
  from hd_sort_key_min[OF ne, of cand_key] h
  have mem: "(r, c, n) \<in> set ts" and le: "\<forall>t\<in>set ts. cand_key (r, c, n) \<le> cand_key t" by auto
  from mem sub have c: "is_candidate sh key r c" "in_scope r" and n: "n = text_count sh r" by auto
  have b: "best ts = (r, c)" by (simp add: best_def h)
  have "preferred sh (r, c) (r', c')" if "is_candidate sh key r' c' \<and> in_scope r'" for r' c'
  proof -
    from that sub have "(r', c', text_count sh r') \<in> set ts" by simp
    with le have "cand_key (r, c, n) \<le> cand_key (r', c', text_count sh r')" by blast
    then show ?thesis by (simp only: n cand_key_le)
  qed
  with c b show ?thesis by (simp add: chosen_among_def)
qed

lemma locate_policy:
  "(if \<exists>r c. is_candidate sh key r c \<and> int r \<le> trp
    then \<exists>p. locate_header_row sh key trp = Inr p \<and> chosen_among sh key (\<lambda>r. int r \<le> trp) p
    else if \<exists>r c. is_candidate sh key r c
    then \<exists>p. locate_header_row sh key trp = Inr p \<and> chosen_among sh key (\<lambda>r. True) p
    else locate_header_row sh key trp = Inl (HeaderNotFound key))"
proof -
  let ?cs = "candidates sh key"
  let ?top = "filter (\<lambda>t. int (fst t) \<le> trp) ?cs"
  have all: "\<And>r c n. (r, c, n) \<in> set ?cs \<longleftrightarrow> is_candidate sh key r c \<and> True \<and> n = text_count sh r"
    by (simp add: set_candidates)
  have tops: "\<And>r c n. (r, c, n) \<in> set ?top \<longleftrightarrow> is_candidate sh key r c \<and> int r \<le> trp \<and> n = text_count sh r"
    by (auto simp: set_candidates)
  show ?thesis
  proof (cases "\<exists>r c. is_candidate sh key r c \<and> int r \<le> trp")
    case True
    then obtain r c where "(r, c, text_count sh r) \<in> set ?top" using tops by blast
    then have ne: "?top \<noteq> []" by (metis empty_iff list.set(1))
    then have ne2: "?cs \<noteq> []" by auto
    from ne ne2 have "locate_header_row sh key trp = Inr (best ?top)"
      by (simp add: locate_header_row_def Let_def)
    with best_chosen[of ?top sh key "\<lambda>r. int r \<le> trp", OF tops ne] True show ?thesis by auto
  next
    case False
    then have e: "?top = []"
    proof -
      have "\<And>t. t \<notin> set ?top"
      proof
        fix t assume t: "t \<in> set ?top"
        obtain r c n where "t = (r, c, n)" by (cases t)
        with t tops False show False by blast
      qed
      then show ?thesis by (cases ?top) auto
    qed
    show ?thesis
    proof (cases "\<exists>r c. is_candidate sh key r c")
      case True
      then have ne: "?cs \<noteq> []" by (simp add: candidates_Nil)
      with e have "locate_header_row sh key trp = Inr (best ?cs)"
        by (simp add: locate_header_row_def Let_def)
      with best_chosen[of ?cs sh key "\<lambda>r. True", OF all ne] True False show ?thesis by auto
    next
      case F2: False
      then have "?cs = []" by (simp add: candidates_Nil)
      then have "locate_header_row sh key trp = Inl (HeaderNotFound key)"
        by (simp add: locate_header_row_def)
      with False F2 show ?thesis by simp
    qed
  qed
qed


lemma text_count_strings:
  "text_count sh r =
     length (filter (\<lambda>c. \<exists>s. cell_value sh r c = CStr s \<and> py_strip s \<noteq> [])
               [1 ..< max_column sh + 1])"
proof -
  have "(case cell_value sh r c of CStr s \<Rightarrow> s \<noteq> [] \<and> py_strip s \<noteq> [] | _ \<Rightarrow> False)
        = (\<exists>s. cell_value sh r c = CStr s \<and> py_strip s \<noteq> [])" for c
    by (cases "cell_value sh r c") (auto simp: py_strip_def)
  then show ?thesis by (simp add: text_count_def)
qed

lemma locate_Inr_candidate:
  assumes "locate_header_row sh key trp = Inr p"
  shows "is_candidate sh key (fst p) (snd p)"
proof -
  from locate_policy[of sh key trp] assms show ?thesis
    by (auto simp: chosen_among_def split: if_splits)
qed

lemma locate_none:
  assumes "\<forall>r c. \<not> is_candidate sh key r c"
  shows "locate_header_row sh key trp = Inl (HeaderNotFound key)"
  using locate_policy[of sh key trp] assms by simp

lemma normalize_Name: "normalize_header (Some (ustr ''Name'')) = ustr ''name''"
  by (simp add: ustr_def normalize_header_def sub_nonword_def is_word_def is_space_def
      py_strip_def py_lower_def lower_cp_def)




text \<open>
  C10. Only string cells count for the header locator: a cell it returns holds a string
  whose normal form is the key; if no string cell of the grid has the key as its normal
  form, it fails with HeaderNotFound, whatever the non-string cells hold (so a key header
  stored as the number 1 is not found under the key \<open>1\<close>); and the textual-cell count of a
  row counts exactly its string cells that are not all whitespace.
\<close>

theorem non_string_cells_ignored:
  "(\<forall>p. locate_header_row sh key trp = Inr p \<longrightarrow>
      (\<exists>s. cell_value sh (fst p) (snd p) = CStr s \<and> normalize_header (Some s) = key))
   \<and> ((\<forall>r c s. cell_value sh r c = CStr s \<longrightarrow> normalize_header (Some s) \<noteq> key) \<longrightarrow>
        locate_header_row sh key trp = Inl (HeaderNotFound key))
   \<and> text_count sh r =
        length (filter (\<lambda>c. \<exists>s. cell_value sh r c = CStr s \<and> py_strip s \<noteq> [])
                  [1 ..< max_column sh + 1])"
proof (intro conjI allI impI)
  fix p
  assume "locate_header_row sh key trp = Inr p"
  from locate_Inr_candidate[OF this]
  show "\<exists>s. cell_value sh (fst p) (snd p) = CStr s \<and> normalize_header (Some s) = key"
    by (auto simp: is_candidate_def)
next
  assume a: "\<forall>r c s. cell_value sh r c = CStr s \<longrightarrow> normalize_header (Some s) \<noteq> key"
  then have "\<forall>r c. \<not> is_candidate sh key r c" by (auto simp: is_candidate_def)
  then show "locate_header_row sh key trp = Inl (HeaderNotFound key)" by (rule locate_none)
next
  show "text_count sh r =
        length (filter (\<lambda>c. \<exists>s. cell_value sh r c = CStr s \<and> py_strip s \<noteq> [])
                  [1 ..< max_column sh + 1])"
    by (rule text_count_strings)
qed


theorem non_string_cells_ignored_witness:
  "normalize_header (Some (py_str (cell_value int_sheet 1 1))) = ustr ''1''
   \<and> locate_header_row int_sheet (ustr ''1'') 20 = Inl (HeaderNotFound (ustr ''1''))"
proof -
  have n: "normalize_header (Some (py_str (cell_value int_sheet 1 1))) = ustr ''1''"
    by (simp add: int_sheet_def dec_int_def dec_nat.simps ustr_def normalize_header_def
        sub_nonword_def is_word_def is_space_def py_strip_def py_lower_def lower_cp_def)
  have "\<forall>r c s. cell_value int_sheet r c = CStr s \<longrightarrow> normalize_header (Some s) \<noteq> ustr ''1''"
    using normalize_Name by (auto simp: int_sheet_def ustr_def split: if_splits)
  with non_string_cells_ignored[of int_sheet "ustr ''1''" 20] n show ?thesis by blast
qed

section \<open>Properties of the column sample\<close>

lemma sample_loop_take:
  "int (length vals) < ms \<Longrightarrow>
   sample_loop sh col ms rs vals =
     vals @ take (nat ms - length vals)
              (map normalize_key (filter (\<lambda>v. \<not> is_blank v) (map (\<lambda>r. cell_value sh r col) rs)))"
proof (induction rs arbitrary: vals)
  case Nil
  show ?case by simp
next
  case (Cons r rs)
  show ?case
  proof (cases "is_blank (cell_value sh r col)")
    case True
    with Cons show ?thesis by simp
  next
    case False
    show ?thesis
    proof (cases "int (length vals) + 1 \<ge> ms")
      case True
      with Cons.prems have "nat ms - length vals = 1" by linarith
      with True False show ?thesis by simp
    next
      case False2: False
      then have lt: "int (length (vals @ [normalize_key (cell_value sh r col)])) < ms" by simp
      have "nat ms - length vals = Suc (nat ms - length (vals @ [normalize_key (cell_value sh r col)]))"
        using False2 by simp
      with Cons.IH[OF lt] False False2 show ?thesis by simp
    qed
  qed
qed

text \<open>
  C3, counterexample. The sample of a column holding \<open>A.B\<close> is \<open>A.B\<close> itself, while the
  Normalizer turns \<open>A.B\<close> into \<open>a b\<close>: the sampled values are not normalized with it.
\<close>

theorem sample_not_normalized_counterexample:
  "sample_column_values upper_sheet 1 1 40 = [ustr ''A.B'']
   \<and> normalize_header (Some (ustr ''A.B'')) = ustr ''a b''"
  by (simp add: sample_column_values_def upper_sheet_def upt_rec is_blank_def normalize_key_def
      ustr_def py_strip_def is_space_def normalize_header_def sub_nonword_def is_word_def
      py_lower_def lower_cp_def)


text \<open>
  C3, as amended. The sample of a column is, in row order, the first \<open>max_samples\<close> of the
  non-empty values found in the rows below the header, scanning the rows up to
  \<open>header_row + 5 * max_samples\<close> and no further than the last row, each value converted
  with \<open>str()\<close> and stripped of surrounding whitespace only (\<open>_normalize_key\<close>): case and
  punctuation are kept.
\<close>

theorem sample_column_values_stripped:
  "sample_column_values sh header_row col max_samples =
     take (nat max_samples)
       (map normalize_key
          (filter (\<lambda>v. \<not> is_blank v)
             (map (\<lambda>r. cell_value sh r col)
                [header_row + 1 ..<
                   nat (min (int (max_row sh) + 1) (int header_row + 1 + max_samples * 5))])))"
proof (cases "0 < max_samples")
  case True
  then show ?thesis
    unfolding sample_column_values_def using sample_loop_take[of "[]" max_samples sh col] by simp
next
  case False
  then have "nat (min (int (max_row sh) + 1) (int header_row + 1 + max_samples * 5)) \<le> header_row + 1"
    by linarith
  then show ?thesis unfolding sample_column_values_def by simp
qed

section \<open>Properties of the column matcher\<close>












section \<open>Properties of the row alignment\<close>







section \<open>Properties of the cell comparison\<close>

text \<open>
  C1, counterexample. \<open>"ABC"\<close> and \<open>"abc"\<close> have the same normal form under the Normalizer,
  yet the pair is marked Removed on the left and Added on the right: the comparison of
  \<open>_safe_eq\<close> is \<open>_normalize_key\<close>, which only strips surrounding whitespace.
\<close>

theorem cell_case_counterexample:
  "normalize_header (Some (ustr ''ABC'')) = normalize_header (Some (ustr ''abc''))
   \<and> map_prod verdict_of verdict_of (cell_fills NoFill (CStr (ustr ''ABC'')) (CStr (ustr ''abc'')))
       = (Removed, Added)"
  by (simp add: cell_fills_def is_blank_def safe_eq_def normalize_key_def ustr_def
      normalize_header_def sub_nonword_def is_word_def is_space_def py_strip_def py_lower_def
      lower_cp_def)

text \<open>
  C1, as amended. For every aligned cell pair: both values empty or absent gives Blank on
  both sides; otherwise, if the \<open>str()\<close> texts of the two values are equal after stripping
  surrounding whitespace (an absent value counting as the empty text), Match on both sides;
  otherwise each non-empty side is marked, Removed in file 1 and Added in file 2, and an
  empty side stays Blank. Case, punctuation and inner whitespace count as differences.
\<close>

theorem cell_verdicts:
  "map_prod verdict_of verdict_of (cell_fills (zebra i) val1 val2) =
     (if is_blank val1 \<and> is_blank val2 then (Blank, Blank)
      else if stripped_text val1 = stripped_text val2 then (Match, Match)
      else (if is_blank val1 then Blank else Removed, if is_blank val2 then Blank else Added))"
  by (cases val1; cases val2)
     (simp_all add: cell_fills_def zebra_def safe_eq_def normalize_key_def stripped_text_def
        is_blank_def)

section \<open>Properties of the row index\<close>

text \<open>
  C2, evaluated on the code. With the key \<open>a\<close> in rows 2 and 3 below the header in row 1,
  the index holds row 3, the last occurrence, not row 2: the loop of \<open>build_row_dict\<close>
  assigns without testing whether the key is already there.
\<close>

theorem build_row_dict_keeps_last:
  "build_row_dict dup_sheet 1 1 = [(ustr ''a'', 3)]"
  by (simp add: build_row_dict_def dup_sheet_def upt_rec is_blank_def ustr_def
      normalize_header_def sub_nonword_def is_word_def is_space_def py_strip_def py_lower_def
      lower_cp_def)

section \<open>Properties of progress reporting\<close>

lemma progress_calm: "progress (Some (calm cb)) p tr = progress (Some cb) p tr"
  by (cases "cb tr p") (simp_all add: progress_def calm_def)

lemma write_rows_calm:
  "write_rows (Some (calm cb)) total_rows hm s1 s2 i rows tr
     = write_rows (Some cb) total_rows hm s1 s2 i rows tr"
  by (induction rows arbitrary: i tr) (simp_all add: progress_calm)

lemma page_loop_calm:
  "page_loop (Some (calm cb)) n pages = page_loop (Some cb) n pages"
proof (induction pages)
  case Nil
  show ?case by (rule ext) simp
next
  case (Cons i pages)
  show ?case by (rule ext) (simp add: progress_calm Cons.IH)
qed

lemma compare_pdfs_calm: "compare_pdfs fl (Some (calm cb)) = compare_pdfs fl (Some cb)"
  by (simp add: compare_pdfs_def save_side_by_side_pdf_def progress_calm page_loop_calm Let_def
      cong: sum.case_cong prod.case_cong if_cong)

lemma compare_excel_files_calm:
  "compare_excel_files ratio to_float set_iter fl (opts\<lparr>progress_cb := Some (calm cb)\<rparr>)
     = compare_excel_files ratio to_float set_iter fl (opts\<lparr>progress_cb := Some cb\<rparr>)"
  by (simp add: compare_excel_files_def progress_calm write_rows_calm Let_def
      cong: sum.case_cong prod.case_cong if_cong)

text \<open>
  C4, counterexample. With a callback that raises an exception at every milestone, the
  comparison of the two example grids does not stop: the callback is called at all of
  1, 5, 15, 30, 30, 95, 100 and the run returns its result.
\<close>

theorem callback_exception_counterexample:
  "compare_excel_files same_ratio dec_float remdups [grid_a, grid_b]
     (default_options\<lparr>progress_cb := Some raising_cb\<rparr>)
   = (Inr \<lparr> out_headers = [(ustr ''ID'', ustr ''ID''), (ustr ''Name'', ustr ''Name'')],
            out_rows =
              [(ustr ''1/1'', [((CInt 1, MatchFill), (CInt 1, MatchFill)),
                              ((CStr (ustr ''A''), MatchFill), (CStr (ustr ''A''), MatchFill))]),
               (ustr ''2/2'', [((CInt 2, MatchFill), (CInt 2, MatchFill)),
                              ((CStr (ustr ''B''), DelFill), (CStr (ustr ''C''), AddFill))])],
            rows_compared = 2 \<rparr>,
      [1, 5, 15, 30, 30, 95, 100])"
  by code_simp

text \<open>
  C4, as amended. An exception derived from \<open>Exception\<close> that the progress callback raises
  at a milestone is swallowed by \<open>_progress\<close>: the tabular and the document engine run
  exactly as with a callback that returns normally there, with the same later milestones
  and the same result.
\<close>

theorem callback_exception_swallowed:
  "compare_excel_files ratio to_float set_iter fl (opts\<lparr>progress_cb := Some cb\<rparr>)
     = compare_excel_files ratio to_float set_iter fl (opts\<lparr>progress_cb := Some (calm cb)\<rparr>)
   \<and> compare_pdfs pdfs (Some cb) = compare_pdfs pdfs (Some (calm cb))"
  by (simp only: compare_excel_files_calm compare_pdfs_calm)

lemma mono_upto_weaken: "mono_upto b tr \<Longrightarrow> b \<le> b' \<Longrightarrow> mono_upto b' tr"
  by (auto simp: mono_upto_def list_all_iff)

lemma mono_upto_snoc: "mono_upto b tr \<Longrightarrow> b \<le> p \<Longrightarrow> mono_upto p (tr @ [p])"
  by (auto simp: mono_upto_def list_all_iff sorted_append)

lemma progress_mono:
  assumes "mono_upto b tr" "b \<le> p"
  shows "mono_upto p (snd (progress cb p tr))"
proof (cases cb)
  case None
  with assms show ?thesis by (simp add: progress_def mono_upto_weaken)
next
  case (Some f)
  with assms show ?thesis
    by (cases "f tr p") (simp_all add: progress_def mono_upto_snoc)
qed

lemma and_then_mono:
  assumes "mono_upto p (snd st)" "p \<le> q"
    and "\<And>tr'. mono_upto p tr' \<Longrightarrow> mono_upto q (snd (k tr'))"
  shows "mono_upto q (snd (and_then st k))"
proof (cases st)
  case (Pair eo tr)
  with assms show ?thesis
    by (cases eo) (auto simp: and_then_def intro: mono_upto_weaken)
qed

lemma snd_write_case:
  "snd (case x of (Inl e, tr) \<Rightarrow> (Inl e, tr) | (Inr outs, tr) \<Rightarrow> (Inr (f outs), tr)) = snd x"
  by (cases x; cases "fst x") auto

lemma div_step: "0 < (t::nat) \<Longrightarrow> int (60 * i div t) \<le> int (60 * (i + 1) div t)"
  by (simp add: div_le_mono)

lemma write_rows_mono:
  assumes "0 < total_rows" "mono_upto (30 + int (60 * i div total_rows)) tr"
  shows "mono_upto (30 + int (60 * (i + length rows) div total_rows))
           (snd (write_rows cb total_rows hm s1 s2 i rows tr))"
  using assms(2)
proof (induction rows arbitrary: i tr)
  case Nil
  then show ?case by simp
next
  case (Cons row rows)
  let ?v = "30 + int (60 * i div total_rows)"
  let ?w = "30 + int (60 * (i + 1) div total_rows)"
  let ?z = "30 + int (60 * (i + length (row # rows)) div total_rows)"
  have vw: "?v \<le> ?w" using div_step[OF assms(1), of i] by simp
  have wz: "?w \<le> ?z" using assms(1) by (simp add: div_le_mono)
  have st: "mono_upto ?v (snd (if i mod 20 = 0 then progress cb ?v tr else (None, tr)))"
    using Cons.prems progress_mono[OF Cons.prems, of ?v cb] by simp
  have k: "mono_upto ?z
             (snd (case write_rows cb total_rows hm s1 s2 (i + 1) rows tr' of
                     (Inl e, tr) \<Rightarrow> (Inl e, tr)
                   | (Inr outs, tr) \<Rightarrow> (Inr (write_row hm s1 s2 i row # outs), tr)))"
    if "mono_upto ?v tr'" for tr'
  proof -
    from that vw have "mono_upto ?w tr'" by (rule mono_upto_weaken)
    from Cons.IH[OF this] show ?thesis by (simp add: snd_write_case)
  qed
  have "?v \<le> ?z" using vw wz by linarith
  from and_then_mono[OF st this k] show ?case by (simp add: Let_def)
qed

lemma nil_mono: "mono_upto 0 []"
  by (simp add: mono_upto_def)

lemma progress_step:
  "mono_upto b tr \<Longrightarrow> b \<le> p \<Longrightarrow> p \<le> q \<Longrightarrow>
   (\<And>tr'. mono_upto p tr' \<Longrightarrow> mono_upto q (snd (k tr'))) \<Longrightarrow>
   mono_upto q (snd (and_then (progress cb p tr) k))"
  by (rule and_then_mono[OF progress_mono])

lemma err_mono: "mono_upto b tr \<Longrightarrow> b \<le> q \<Longrightarrow> mono_upto q (snd (r, tr))"
  by (simp add: mono_upto_weaken)

lemma rows_bound:
  "0 < total_rows \<Longrightarrow> n \<le> total_rows \<Longrightarrow> 30 + int (60 * n div total_rows) \<le> 90"
proof -
  assume a: "0 < total_rows" "n \<le> total_rows"
  then have "60 * n div total_rows \<le> 60 * total_rows div total_rows" by (intro div_le_mono) simp
  with a have "60 * n div total_rows \<le> 60" by simp
  then show ?thesis by simp
qed

lemma write_tail_mono:
  assumes "mono_upto 30 tr" "0 < total_rows" "length rows \<le> total_rows"
  shows "mono_upto 100
     (snd (case write_rows cb total_rows hm s1 s2 0 rows tr of
             (Inl e, tr) \<Rightarrow> (Inl e, tr)
           | (Inr outs, tr) \<Rightarrow>
               and_then (progress cb 95 tr) (\<lambda>tr. and_then (progress cb 100 tr) (\<lambda>tr. (f outs, tr)))))"
proof -
  obtain res tr' where w: "write_rows cb total_rows hm s1 s2 0 rows tr = (res, tr')"
    by (cases "write_rows cb total_rows hm s1 s2 0 rows tr")
  have "mono_upto (30 + int (60 * (0 + length rows) div total_rows))
          (snd (write_rows cb total_rows hm s1 s2 0 rows tr))"
    using assms by (intro write_rows_mono) simp_all
  moreover have "30 + int (60 * (0 + length rows) div total_rows) \<le> 90"
    using assms by (intro rows_bound) simp_all
  ultimately have m: "mono_upto 90 tr'" using w by (auto intro: mono_upto_weaken)
  show ?thesis
  proof (cases res)
    case (Inl e)
    with w m show ?thesis by (simp add: mono_upto_weaken)
  next
    case (Inr outs)
    have "mono_upto 100 (snd (and_then (progress cb 95 tr')
            (\<lambda>tr. and_then (progress cb 100 tr) (\<lambda>tr. (f outs, tr)))))"
    proof (rule progress_step[OF m, where p = 95 and q = 100])
      fix t1
      assume "mono_upto 95 t1"
      then show "mono_upto 100 (snd (and_then (progress cb 100 t1) (\<lambda>tr. (f outs, tr))))"
        by (rule progress_step[where b = 95 and p = 100 and q = 100]) simp_all
    qed simp_all
    with w Inr show ?thesis by simp
  qed
qed

lemmas excel_steps =
  progress_step[where b = 1 and p = 5 and q = 100]
  progress_step[where b = 5 and p = 15 and q = 100]
  progress_step[where b = 15 and p = 30 and q = 100]

lemma excel_weaken:
  "mono_upto 1 tr \<Longrightarrow> mono_upto 100 tr"
  "mono_upto 5 tr \<Longrightarrow> mono_upto 100 tr"
  "mono_upto 15 tr \<Longrightarrow> mono_upto 100 tr"
  "mono_upto 30 tr \<Longrightarrow> mono_upto 100 tr"
  by (erule mono_upto_weaken, simp)+

lemma excel_progress_monotone:
  "mono_upto 100 (snd (compare_excel_files ratio to_float set_iter fl opts))"
proof (cases "length fl < 2")
  case True
  then show ?thesis by (simp add: compare_excel_files_def mono_upto_def)
next
  case False
  show ?thesis
  proof (cases "locate_header_row (fl ! 0) (normalize_header (key_header opts)) (top_rows_prefer opts)")
    case (Inl e)
    with False show ?thesis
      by (auto simp: compare_excel_files_def Let_def excel_weaken
          intro!: progress_step[OF nil_mono])
  next
    case (Inr p1)
    obtain kr1 kc1 where p1: "p1 = (kr1, kc1)" by (cases p1)
    show ?thesis
    proof (cases "locate_header_row (fl ! 1) (normalize_header (key_header opts)) (top_rows_prefer opts)")
      case (Inl e)
      with False Inr p1 show ?thesis
        by (auto simp: compare_excel_files_def Let_def excel_weaken
            intro!: progress_step[OF nil_mono])
    next
      case I2: (Inr p2)
      obtain kr2 kc2 where p2: "p2 = (kr2, kc2)" by (cases p2)
      from False Inr p1 I2 p2 show ?thesis
        by (auto simp: compare_excel_files_def Let_def less_max_iff_disj excel_weaken
            intro!: progress_step[OF nil_mono] excel_steps write_tail_mono)
    qed
  qed
qed

text \<open>
  The tabular engine's progress is monotone and stays within 0 and 100, for every input,
  also when the run ends in an error.
\<close>

lemma tabular_progress_monotone:
  "sorted (snd (compare_excel_files ratio to_float set_iter fl opts))
   \<and> list_all (\<lambda>p. 0 \<le> p \<and> p \<le> 100) (snd (compare_excel_files ratio to_float set_iter fl opts))"
  using excel_progress_monotone[of ratio to_float set_iter fl opts] by (simp add: mono_upto_def)

text \<open>
  C5, evaluated on the code. Comparing two documents of two pages each, the callback is
  called with 1, 20, 30, 30, 50, 40, 60, 95, 100: after 50 for the text overlay of the
  first page comes 40 for the visual overlay of the second.
\<close>

theorem pdf_progress_goes_back:
  "compare_pdfs [two_pages, two_pages] (Some quiet_cb)
     = (Inr 2, [1, 20, 30, 30, 50, 40, 60, 95, 100])"
  by code_simp

end
